theory Spec2Isabelle
  imports Complex_Main
begin

section \<open>Session monitor: data model\<close>

text \<open>
  A shallow embedding of \<^verbatim>\<open>src/server/python_microservice/session_monitor.py\<close>.

  A \<^verbatim>\<open>datetime\<close> is the number of microseconds since the epoch (its resolution), a
  \<^verbatim>\<open>timedelta\<close> a number of microseconds. Python floats that hold scores are reals:
  the scores are only compared, clamped and stored.
\<close>

type_synonym datetime = int

definition seconds :: "int \<Rightarrow> int" where
  "seconds n = n * 1000000"

text \<open>The thresholds of lines 41 to 44.\<close>

definition TAB_SWITCH_THRESHOLD :: int where
  "TAB_SWITCH_THRESHOLD = 3"

definition INACTIVITY_THRESHOLD :: real where
  "INACTIVITY_THRESHOLD = 30"

definition HEARTBEAT_TIMEOUT :: int where
  "HEARTBEAT_TIMEOUT = 10"

definition SUSPICIOUS_SCORE_THRESHOLD :: real where
  "SUSPICIOUS_SCORE_THRESHOLD = 7 / 10"

datatype EventType =
    TAB_SWITCH | INACTIVITY | HEARTBEAT | SESSION_START | SESSION_END
  | SCREEN_LOCK | DEVICE_CHANGE | COPY_PASTE | RIGHT_CLICK | KEYBOARD_SHORTCUT

datatype SecurityLevel = LOW | MEDIUM | HIGH | CRITICAL

datatype error = KeyError string | ValueError string | TypeError | AttributeError string

text \<open>
  \<^verbatim>\<open>EventType(v)\<close>: the member whose value is \<^verbatim>\<open>v\<close>; any other string raises
  \<^verbatim>\<open>ValueError\<close>.
\<close>

definition EventType_of :: "string \<Rightarrow> error + EventType" where
  "EventType_of v =
     (if v = ''tab_switch'' then Inr TAB_SWITCH
      else if v = ''inactivity'' then Inr INACTIVITY
      else if v = ''heartbeat'' then Inr HEARTBEAT
      else if v = ''session_start'' then Inr SESSION_START
      else if v = ''session_end'' then Inr SESSION_END
      else if v = ''screen_lock'' then Inr SCREEN_LOCK
      else if v = ''device_change'' then Inr DEVICE_CHANGE
      else if v = ''copy_paste'' then Inr COPY_PASTE
      else if v = ''right_click'' then Inr RIGHT_CLICK
      else if v = ''keyboard_shortcut'' then Inr KEYBOARD_SHORTCUT
      else Inl (ValueError v))"

definition event_type_values :: "string list" where
  "event_type_values =
     [''tab_switch'', ''inactivity'', ''heartbeat'', ''session_start'', ''session_end'',
      ''screen_lock'', ''device_change'', ''copy_paste'', ''right_click'',
      ''keyboard_shortcut'']"

text \<open>
  A metadata value is \<^verbatim>\<open>Any\<close>: what the rules do with it depends only on whether it
  is a number. \<open>JOther\<close> stands for every value (a string, \<^verbatim>\<open>None\<close>, a list, a dict)
  whose comparison with a number raises \<^verbatim>\<open>TypeError\<close>.
\<close>

datatype jvalue = JNum real | JOther

type_synonym metadata = "string \<rightharpoonup> jvalue"

text \<open>
  The \<^verbatim>\<open>metadata\<close> of an event is whatever the client sent under that key: a dict,
  or \<open>MOther\<close>, any value (a JSON null, a list, a string, a number) that has no
  \<^verbatim>\<open>get\<close>, so that reading a key from it raises \<^verbatim>\<open>AttributeError\<close>.
\<close>

datatype jmeta = MDict metadata | MOther

definition md_get :: "metadata \<Rightarrow> string \<Rightarrow> jvalue \<Rightarrow> jvalue" where
  "md_get md k dflt = (case md k of Some v \<Rightarrow> v | None \<Rightarrow> dflt)"

fun py_gt :: "jvalue \<Rightarrow> real \<Rightarrow> error + bool" where
  "py_gt (JNum x) y = Inr (x > y)"
| "py_gt JOther y = Inl TypeError"

text \<open>
  The dict handed to \<^verbatim>\<open>process_event\<close>, by the WebSocket endpoint as the client sent
  it (lines 140 to 142) and by the REST handler after validation (the fields of
  \<^verbatim>\<open>EventData\<close>, lines 87 to 94): \<open>None\<close> is a key that is not there.
\<close>

record EventData =
  d_user_id :: "string option"
  d_session_id :: "string option"
  d_event_type :: "string option"
  d_metadata :: "jmeta option"
  d_device_fingerprint :: "string option"
  d_ip_address :: "string option"
  d_user_agent :: "string option"

record SessionEvent =
  ev_user_id :: string
  ev_session_id :: string
  ev_event_type :: EventType
  ev_timestamp :: datetime
  ev_metadata :: jmeta
  ev_device_fingerprint :: "string option"
  ev_ip_address :: "string option"
  ev_user_agent :: "string option"

text \<open>
  The description of an alert is kept as the format's arguments rather than rendered:
  the cumulative tab-switch count, the reported duration, the elapsed microseconds and
  the score.
\<close>

datatype description =
    ExcessiveTabSwitching int
  | UserInactive jvalue
  | HeartbeatTimeoutAfter int
  | MLFlagged real

record SecurityAlert =
  alert_id :: string
  al_user_id :: string
  al_session_id :: string
  security_level :: SecurityLevel
  al_event_type :: EventType
  al_description :: description
  al_timestamp :: datetime
  al_metadata :: jmeta
  is_resolved :: bool

text \<open>
  One entry of \<^verbatim>\<open>active_sessions\<close> (the dict literal of lines 250 to 259).
  \<^verbatim>\<open>last_heartbeat\<close> is always a \<^verbatim>\<open>datetime\<close>, so the truth test of line 309 always
  succeeds; \<^verbatim>\<open>last_tab_switch\<close> starts as \<^verbatim>\<open>None\<close>.
\<close>

record session =
  user_id :: string
  start_time :: datetime
  last_heartbeat :: datetime
  status :: string
  risk_score :: real
  event_count :: int
  tab_switches :: int
  last_tab_switch :: "datetime option"

text \<open>
  The anomaly model is a library object outside the repository, taken as a parameter:
  what its truth test gives (\<^verbatim>\<open>if self.ml_model:\<close>, lines 318 and 366, which for an
  ensemble asks for its length and may raise), and what
  \<^verbatim>\<open>decision_function(features)[0]\<close> gives, a margin or an exception.
  \<open>ml_model = None\<close> is the \<^verbatim>\<open>None\<close> that \<^verbatim>\<open>_initialize_ml_model\<close> returns when
  loading fails.
\<close>

record model =
  truth :: "error + bool"
  decision_function :: "jvalue list \<Rightarrow> error + real"

record monitor =
  active_sessions :: "string \<rightharpoonup> session"
  ml_model :: "model option"

text \<open>
  The clock readings of one run of \<^verbatim>\<open>process_event\<close>: \<^verbatim>\<open>datetime.utcnow()\<close> at
  line 203 (the ingestion timestamp) and again at line 310 (after the awaited event
  store), and \<^verbatim>\<open>int(time.time())\<close> in each call of \<^verbatim>\<open>_create_alert\<close>, one call
  site per rule.
\<close>

datatype rule = TabRule | InactivityRule | HeartbeatRule | ScoreRule

record clock =
  utcnow_ingest :: datetime
  utcnow_analyze :: datetime
  time_time :: "rule \<Rightarrow> int"

section \<open>Operations\<close>

subsection \<open>Rendering an integer, for the alert id\<close>

definition digit_char :: "nat \<Rightarrow> char" where
  "digit_char d = ''0123456789'' ! d"

fun str_nat :: "nat \<Rightarrow> string" where
  "str_nat n = (if n < 10 then [digit_char n] else str_nat (n div 10) @ [digit_char (n mod 10)])"

declare str_nat.simps [simp del]

definition str_int :: "int \<Rightarrow> string" where
  "str_int i = (if i < 0 then CHR ''-'' # str_nat (nat (- i)) else str_nat (nat i))"

subsection \<open>Lines 336 to 347: \<^verbatim>\<open>_create_alert\<close>\<close>

definition create_alert ::
  "int \<Rightarrow> SessionEvent \<Rightarrow> SecurityLevel \<Rightarrow> description \<Rightarrow> SecurityAlert" where
  "create_alert epoch e level descr =
     \<lparr>alert_id = ''alert_'' @ str_int epoch @ ''_'' @ ev_session_id e,
      al_user_id = ev_user_id e,
      al_session_id = ev_session_id e,
      security_level = level,
      al_event_type = ev_event_type e,
      al_description = descr,
      al_timestamp = ev_timestamp e,
      al_metadata = ev_metadata e,
      is_resolved = False\<rparr>"

subsection \<open>Lines 199 to 208: building the event\<close>

text \<open>
  The keyword arguments are evaluated in order: a missing \<^verbatim>\<open>user_id\<close>, then a missing
  \<^verbatim>\<open>session_id\<close>, then a missing or unknown \<^verbatim>\<open>event_type\<close> raises. Nothing looks at
  the contents of \<^verbatim>\<open>user_id\<close> and \<^verbatim>\<open>session_id\<close>.
\<close>

definition build_event :: "datetime \<Rightarrow> EventData \<Rightarrow> error + SessionEvent" where
  "build_event now d =
     (case d_user_id d of
        None \<Rightarrow> Inl (KeyError ''user_id'')
      | Some u \<Rightarrow>
     (case d_session_id d of
        None \<Rightarrow> Inl (KeyError ''session_id'')
      | Some sid \<Rightarrow>
     (case d_event_type d of
        None \<Rightarrow> Inl (KeyError ''event_type'')
      | Some v \<Rightarrow>
     (case EventType_of v of
        Inl err \<Rightarrow> Inl err
      | Inr et \<Rightarrow>
          Inr \<lparr>ev_user_id = u,
               ev_session_id = sid,
               ev_event_type = et,
               ev_timestamp = now,
               ev_metadata = (case d_metadata d of Some md \<Rightarrow> md | None \<Rightarrow> MDict Map.empty),
               ev_device_fingerprint = d_device_fingerprint d,
               ev_ip_address = d_ip_address d,
               ev_user_agent = d_user_agent d\<rparr>))))"

subsection \<open>Lines 245 to 277: \<^verbatim>\<open>update_session_state\<close>\<close>

definition new_session :: "SessionEvent \<Rightarrow> session" where
  "new_session e =
     \<lparr>user_id = ev_user_id e,
      start_time = ev_timestamp e,
      last_heartbeat = ev_timestamp e,
      status = ''active'',
      risk_score = 0,
      event_count = 0,
      tab_switches = 0,
      last_tab_switch = None\<rparr>"

definition update_session_state ::
  "SessionEvent \<Rightarrow> (string \<rightharpoonup> session) \<Rightarrow> (string \<rightharpoonup> session)" where
  "update_session_state e tbl =
     (let sid = ev_session_id e;
          tbl1 =
            (if ev_event_type e = SESSION_START then tbl(sid \<mapsto> new_session e)
             else if ev_event_type e = HEARTBEAT then
               (case tbl sid of
                  Some s \<Rightarrow> tbl(sid \<mapsto> s\<lparr>last_heartbeat := ev_timestamp e\<rparr>)
                | None \<Rightarrow> tbl)
             else if ev_event_type e = SESSION_END then
               (case tbl sid of
                  Some s \<Rightarrow> tbl(sid \<mapsto> s\<lparr>status := ''ended''\<rparr>)
                | None \<Rightarrow> tbl)
             else if ev_event_type e = TAB_SWITCH then
               (case tbl sid of
                  Some s \<Rightarrow>
                    tbl(sid \<mapsto> s\<lparr>tab_switches := tab_switches s + 1,
                                 last_tab_switch := Some (ev_timestamp e)\<rparr>)
                | None \<Rightarrow> tbl)
             else tbl)
      in case tbl1 sid of
           Some s \<Rightarrow> tbl1(sid \<mapsto> s\<lparr>event_count := event_count s + 1\<rparr>)
         | None \<Rightarrow> tbl1)"

subsection \<open>Lines 349 to 375: \<^verbatim>\<open>_calculate_ml_risk_score\<close>\<close>

text \<open>
  The whole body is inside a \<^verbatim>\<open>try\<close>: reading the metadata, the truth test of line
  366 and the call of the model may each raise, and whatever is raised is logged at line
  373 and answered by the \<^verbatim>\<open>return 0.0\<close> of line 375, as is a model that is not there
  or not true. The result is the score and what was logged.
\<close>

definition features_of :: "SessionEvent \<Rightarrow> session \<Rightarrow> error + jvalue list" where
  "features_of e s =
     (case ev_metadata e of
        MOther \<Rightarrow> Inl (AttributeError ''get'')
      | MDict md \<Rightarrow>
          Inr [JNum (of_int (event_count s)),
               JNum (of_int (tab_switches s)),
               JNum (risk_score s),
               md_get md ''duration'' (JNum 0),
               md_get md ''click_count'' (JNum 0),
               md_get md ''keypress_count'' (JNum 0)])"

definition calculate_ml_risk_score ::
  "monitor \<Rightarrow> SessionEvent \<Rightarrow> session \<Rightarrow> real \<times> error list" where
  "calculate_ml_risk_score m e s =
     (case features_of e s of
        Inl err \<Rightarrow> (0, [err])
      | Inr features \<Rightarrow>
          (case ml_model m of
             None \<Rightarrow> (0, [])
           | Some mdl \<Rightarrow>
               (case truth mdl of
                  Inl err \<Rightarrow> (0, [err])
                | Inr is_true \<Rightarrow>
                    if is_true then
                      (case decision_function mdl features of
                         Inl err \<Rightarrow> (0, [err])
                       | Inr score \<Rightarrow> (max 0 (min 1 (1 - (score + 1 / 2))), []))
                    else (0, []))))"

subsection \<open>Lines 279 to 334: \<^verbatim>\<open>analyze_security\<close>\<close>

definition tab_switch_rule :: "clock \<Rightarrow> SessionEvent \<Rightarrow> session \<Rightarrow> SecurityAlert list" where
  "tab_switch_rule clk e s =
     (if ev_event_type e = TAB_SWITCH then
        (case last_tab_switch s of
           Some lts \<Rightarrow>
             (if ev_timestamp e - lts < seconds 60 \<and> tab_switches s > TAB_SWITCH_THRESHOLD
              then [create_alert (time_time clk TabRule) e HIGH
                      (ExcessiveTabSwitching (tab_switches s))]
              else [])
         | None \<Rightarrow> [])
      else [])"

definition inactivity_rule ::
  "clock \<Rightarrow> SessionEvent \<Rightarrow> error + SecurityAlert list" where
  "inactivity_rule clk e =
     (if ev_event_type e = INACTIVITY then
        (case ev_metadata e of
           MOther \<Rightarrow> Inl (AttributeError ''get'')
         | MDict md \<Rightarrow>
             (case py_gt (md_get md ''duration'' (JNum 0)) INACTIVITY_THRESHOLD of
                Inl err \<Rightarrow> Inl err
              | Inr exceeded \<Rightarrow>
                  Inr (if exceeded
                       then [create_alert (time_time clk InactivityRule) e MEDIUM
                               (UserInactive (md_get md ''duration'' JOther))]
                       else [])))
      else Inr [])"

definition heartbeat_rule :: "clock \<Rightarrow> SessionEvent \<Rightarrow> session \<Rightarrow> SecurityAlert list" where
  "heartbeat_rule clk e s =
     (let time_since_heartbeat = utcnow_analyze clk - last_heartbeat s
      in if time_since_heartbeat > seconds HEARTBEAT_TIMEOUT
         then [create_alert (time_time clk HeartbeatRule) e CRITICAL
                 (HeartbeatTimeoutAfter time_since_heartbeat)]
         else [])"

text \<open>The truth test of line 318: \<^verbatim>\<open>None\<close> is false, a model answers for itself.\<close>

definition model_is_true :: "model option \<Rightarrow> error + bool" where
  "model_is_true mo = (case mo of None \<Rightarrow> Inr False | Some mdl \<Rightarrow> truth mdl)"

text \<open>
  Two statements of \<^verbatim>\<open>analyze_security\<close> can raise: the read and comparison of the
  inactivity rule (line 302) and the truth test of the model (line 318). Both come
  before any write to the session and before the alerts collected so far are handed to
  \<^verbatim>\<open>store_alert\<close>: \<open>Inl\<close> leaves the monitor as it was and stores no alert. Otherwise
  the result is the monitor, the alerts handed to \<^verbatim>\<open>store_alert\<close>, in order, and what
  \<^verbatim>\<open>_calculate_ml_risk_score\<close> logged.
\<close>

definition analyze_security ::
  "clock \<Rightarrow> monitor \<Rightarrow> SessionEvent \<Rightarrow>
     error + monitor \<times> SecurityAlert list \<times> error list" where
  "analyze_security clk m e =
     (let sid = ev_session_id e in
      case active_sessions m sid of
        None \<Rightarrow> Inr (m, [], [])
      | Some s \<Rightarrow>
          (let tab_alerts = tab_switch_rule clk e s in
           case inactivity_rule clk e of
             Inl err \<Rightarrow> Inl err
           | Inr inactivity_alerts \<Rightarrow>
               (let alerts1 = tab_alerts @ inactivity_alerts @ heartbeat_rule clk e s in
                case model_is_true (ml_model m) of
                  Inl err \<Rightarrow> Inl err
                | Inr is_true \<Rightarrow>
                    (let scored = (if is_true then calculate_ml_risk_score m e s else (0, []));
                         s1 = (if is_true then s\<lparr>risk_score := fst scored\<rparr> else s);
                         alerts = alerts1 @
                           (if is_true \<and> fst scored > SUSPICIOUS_SCORE_THRESHOLD
                            then [create_alert (time_time clk ScoreRule) e HIGH
                                    (MLFlagged (fst scored))]
                            else []);
                         s2 = (if alerts \<noteq> []
                               then s1\<lparr>risk_score := max (risk_score s1) (8 / 10)\<rparr>
                               else s1)
                     in Inr (m\<lparr>active_sessions := (active_sessions m)(sid \<mapsto> s2)\<rparr>,
                             alerts, snd scored)))))"

subsection \<open>Lines 195 to 223: \<^verbatim>\<open>process_event\<close>\<close>

text \<open>
  \<^verbatim>\<open>store_event\<close>, \<^verbatim>\<open>store_alert\<close> and \<^verbatim>\<open>publish_event\<close> catch what they raise and
  write nothing to \<^verbatim>\<open>active_sessions\<close>; of them the model keeps the alerts handed to
  \<^verbatim>\<open>store_alert\<close>. The \<^verbatim>\<open>except Exception\<close> of line 222 logs whatever the body
  raised and returns: \<open>logged\<close> holds, in order, what lines 373 and 223 logged, and
  \<open>Inl\<close>, an exception reaching the caller, is never the result.
\<close>

record outcome =
  monitor_after :: monitor
  alerts_stored :: "SecurityAlert list"
  logged :: "error list"

definition process_event :: "clock \<Rightarrow> monitor \<Rightarrow> EventData \<Rightarrow> error + outcome" where
  "process_event clk m d =
     (case build_event (utcnow_ingest clk) d of
        Inl err \<Rightarrow> Inr \<lparr>monitor_after = m, alerts_stored = [], logged = [err]\<rparr>
      | Inr e \<Rightarrow>
          (let m1 = m\<lparr>active_sessions := update_session_state e (active_sessions m)\<rparr> in
           case analyze_security clk m1 e of
             Inl err \<Rightarrow> Inr \<lparr>monitor_after = m1, alerts_stored = [], logged = [err]\<rparr>
           | Inr (m2, alerts, score_log) \<Rightarrow>
               Inr \<lparr>monitor_after = m2, alerts_stored = alerts, logged = score_log\<rparr>))"

subsection \<open>Lines 148 to 156: the REST handler\<close>

text \<open>
  The handler's argument is an \<^verbatim>\<open>EventData\<close>: a body without \<^verbatim>\<open>user_id\<close>,
  \<^verbatim>\<open>session_id\<close> or \<^verbatim>\<open>event_type\<close>, or whose \<^verbatim>\<open>metadata\<close> is not a dict, is refused
  with status 422 before the handler runs. Otherwise the handler calls
  \<^verbatim>\<open>process_event\<close> and answers success, or status 500 when an exception reaches it.
  The result is the response and the monitor afterwards.
\<close>

datatype response = Success | HTTP422 | HTTP500 error

definition body_accepted :: "EventData \<Rightarrow> bool" where
  "body_accepted d =
     (d_user_id d \<noteq> None \<and> d_session_id d \<noteq> None \<and> d_event_type d \<noteq> None \<and>
      d_metadata d \<noteq> Some MOther)"

definition receive_event :: "clock \<Rightarrow> monitor \<Rightarrow> EventData \<Rightarrow> response \<times> monitor" where
  "receive_event clk m d =
     (if body_accepted d then
        (case process_event clk m d of
           Inl err \<Rightarrow> (HTTP500 err, m)
         | Inr out \<Rightarrow> (Success, monitor_after out))
      else (HTTP422, m))"

text \<open>A sequence of events, each with its clock readings, handled one after the other.\<close>

definition step :: "monitor \<Rightarrow> clock \<times> EventData \<Rightarrow> monitor" where
  "step m ce = (case process_event (fst ce) m (snd ce) of
                  Inl err \<Rightarrow> m
                | Inr out \<Rightarrow> monitor_after out)"

definition run :: "monitor \<Rightarrow> (clock \<times> EventData) list \<Rightarrow> monitor" where
  "run m ces = foldl step m ces"

subsection \<open>Lines 422 to 437: \<^verbatim>\<open>cleanup_expired_sessions\<close>\<close>

definition expired :: "datetime \<Rightarrow> session \<Rightarrow> bool" where
  "expired current_time s =
     (if status s = ''ended'' then True
      else current_time - last_heartbeat s > seconds 300)"

definition cleanup_expired_sessions :: "datetime \<Rightarrow> monitor \<Rightarrow> monitor" where
  "cleanup_expired_sessions current_time m =
     m\<lparr>active_sessions :=
         (\<lambda>sid. case active_sessions m sid of
                  None \<Rightarrow> None
                | Some s \<Rightarrow> if expired current_time s then None else Some s)\<rparr>"

section \<open>Concrete inputs\<close>

text \<open>
  An event dict with the three required keys and a metadata dict; a clock whose
  readings all fall at second \<open>t\<close>, and one whose second \<^verbatim>\<open>utcnow()\<close> comes \<open>lag\<close>
  seconds after the first; a monitor with an empty session table.
\<close>

definition event_dict :: "string \<Rightarrow> string \<Rightarrow> string \<Rightarrow> metadata \<Rightarrow> EventData" where
  "event_dict u sid v md =
     \<lparr>d_user_id = Some u, d_session_id = Some sid, d_event_type = Some v,
      d_metadata = Some (MDict md), d_device_fingerprint = None, d_ip_address = None,
      d_user_agent = None\<rparr>"

definition clock_lagging :: "int \<Rightarrow> int \<Rightarrow> clock" where
  "clock_lagging t lag =
     \<lparr>utcnow_ingest = seconds t, utcnow_analyze = seconds (t + lag),
      time_time = (\<lambda>r. t + lag)\<rparr>"

definition clock_at :: "int \<Rightarrow> clock" where
  "clock_at t = clock_lagging t 0"

definition fresh_monitor :: "model option \<Rightarrow> monitor" where
  "fresh_monitor model = \<lparr>active_sessions = Map.empty, ml_model = model\<rparr>"

text \<open>
  The object of lines 125 to 127 when no trained model is on disk, an
  \<^verbatim>\<open>IsolationForest\<close> that was never fitted: its truth test asks for the length of
  the ensemble, which reads the missing attribute \<^verbatim>\<open>estimators_\<close> and raises. A model
  that is true and whose every call raises; and one that answers every call with one
  margin.
\<close>

definition unfitted_forest :: model where
  "unfitted_forest =
     \<lparr>truth = Inl (AttributeError ''estimators_''),
      decision_function = (\<lambda>features. Inl (AttributeError ''estimators_''))\<rparr>"

definition failing_model :: model where
  "failing_model =
     \<lparr>truth = Inr True, decision_function = (\<lambda>features. Inl (ValueError ''features''))\<rparr>"

definition constant_model :: "real \<Rightarrow> model" where
  "constant_model margin = \<lparr>truth = Inr True, decision_function = (\<lambda>features. Inr margin)\<rparr>"

text \<open>The monitor after one \<^verbatim>\<open>session_start\<close> of session \<open>s1\<close> at second 0.\<close>

definition started :: "model option \<Rightarrow> monitor" where
  "started model = run (fresh_monitor model)
     [(clock_at 0, event_dict ''u1'' ''s1'' ''session_start'' Map.empty)]"

definition alerts_of :: "error + outcome \<Rightarrow> SecurityAlert list" where
  "alerts_of r = (case r of Inl err \<Rightarrow> [] | Inr out \<Rightarrow> alerts_stored out)"

definition logged_of :: "error + outcome \<Rightarrow> error list" where
  "logged_of r = (case r of Inl err \<Rightarrow> [err] | Inr out \<Rightarrow> logged out)"

definition session_of :: "error + outcome \<Rightarrow> string \<Rightarrow> session option" where
  "session_of r sid =
     (case r of Inl err \<Rightarrow> None | Inr out \<Rightarrow> active_sessions (monitor_after out) sid)"

text \<open>
  The count that section 4.3 of the specification compares with the threshold, written
  from its words for comparison with the code: the number of tab-switch timestamps that
  lie within the last 60 seconds at time \<open>now\<close>. The source keeps no such history.
\<close>

definition sliding_window_count :: "datetime list \<Rightarrow> datetime \<Rightarrow> nat" where
  "sliding_window_count history now =
     length (filter (\<lambda>t. now - t \<le> seconds 60) history)"

text \<open>The critical-severity alerts among those stored for one event.\<close>

definition critical_alerts :: "SecurityAlert list \<Rightarrow> SecurityAlert list" where
  "critical_alerts alerts = filter (\<lambda>a. security_level a = CRITICAL) alerts"

section \<open>Properties\<close>

subsection \<open>Evaluating the model on concrete inputs\<close>

lemmas model_defs = process_event_def build_event_def EventType_of_def update_session_state_def
  analyze_security_def inactivity_rule_def tab_switch_rule_def heartbeat_rule_def
  calculate_ml_risk_score_def model_is_true_def new_session_def md_get_def features_of_def
  seconds_def TAB_SWITCH_THRESHOLD_def INACTIVITY_THRESHOLD_def HEARTBEAT_TIMEOUT_def
  SUSPICIOUS_SCORE_THRESHOLD_def Let_def

lemmas fixture_defs = event_dict_def clock_lagging_def clock_at_def fresh_monitor_def
  alerts_of_def logged_of_def session_of_def step_def run_def

lemma started_None:
  "started None =
     \<lparr>active_sessions = [''s1'' \<mapsto> \<lparr>user_id = ''u1'', start_time = 0, last_heartbeat = 0,
         status = ''active'', risk_score = 0, event_count = 1, tab_switches = 0,
         last_tab_switch = None\<rparr>],
      ml_model = None\<rparr>"
  by (simp add: started_def model_defs fixture_defs)

lemma model_sel:
  "truth unfitted_forest = Inl (AttributeError ''estimators_'')"
  "decision_function unfitted_forest features = Inl (AttributeError ''estimators_'')"
  "truth failing_model = Inr True"
  "decision_function failing_model features = Inl (ValueError ''features'')"
  "truth (constant_model margin) = Inr True"
  "decision_function (constant_model margin) features = Inr margin"
  by (simp_all add: unfitted_forest_def failing_model_def constant_model_def)

lemma started_unfitted:
  "started (Some unfitted_forest) =
     \<lparr>active_sessions = [''s1'' \<mapsto> \<lparr>user_id = ''u1'', start_time = 0, last_heartbeat = 0,
         status = ''active'', risk_score = 0, event_count = 1, tab_switches = 0,
         last_tab_switch = None\<rparr>],
      ml_model = Some unfitted_forest\<rparr>"
  by (simp add: started_def model_defs fixture_defs model_sel)

lemma started_failing:
  "started (Some failing_model) =
     \<lparr>active_sessions = [''s1'' \<mapsto> \<lparr>user_id = ''u1'', start_time = 0, last_heartbeat = 0,
         status = ''active'', risk_score = 0, event_count = 1, tab_switches = 0,
         last_tab_switch = None\<rparr>],
      ml_model = Some failing_model\<rparr>"
  by (simp add: started_def model_defs fixture_defs model_sel)

subsection \<open>Building and validating the event\<close>

lemma process_event_returns: "\<exists>out. process_event clk m d = Inr out"
  by (simp add: process_event_def Let_def split: sum.splits prod.splits)

lemma EventType_of_unknown: "v \<notin> set event_type_values \<Longrightarrow> EventType_of v = Inl (ValueError v)"
  by (simp add: EventType_of_def event_type_values_def)

lemma EventType_of_known: "v \<in> set event_type_values \<Longrightarrow> \<exists>et. EventType_of v = Inr et"
  by (auto simp: EventType_of_def event_type_values_def)

lemma EventType_of_start: "EventType_of v = Inr SESSION_START \<Longrightarrow> v = ''session_start''"
  by (auto simp: EventType_of_def split: if_splits)

lemma build_event_fields:
  "build_event now d = Inr e \<Longrightarrow>
     d_user_id d = Some (ev_user_id e) \<and> d_session_id d = Some (ev_session_id e) \<and>
     (\<exists>v. d_event_type d = Some v \<and> EventType_of v = Inr (ev_event_type e)) \<and>
     ev_timestamp e = now \<and>
     ev_metadata e = (case d_metadata d of Some md \<Rightarrow> md | None \<Rightarrow> MDict Map.empty)"
  by (auto simp: build_event_def split: option.splits sum.splits)

subsection \<open>The session table under one event\<close>

lemma update_other: "k \<noteq> ev_session_id e \<Longrightarrow> update_session_state e tbl k = tbl k"
  by (simp add: update_session_state_def Let_def split: option.splits)

lemma update_unknown:
  "tbl (ev_session_id e) = None \<Longrightarrow> ev_event_type e \<noteq> SESSION_START \<Longrightarrow>
   update_session_state e tbl = tbl"
  by (simp add: update_session_state_def Let_def split: option.splits)

lemma update_known:
  "tbl (ev_session_id e) = Some s \<Longrightarrow>
   update_session_state e tbl (ev_session_id e) =
     Some ((if ev_event_type e = SESSION_START then new_session e
            else if ev_event_type e = HEARTBEAT then s\<lparr>last_heartbeat := ev_timestamp e\<rparr>
            else if ev_event_type e = SESSION_END then s\<lparr>status := ''ended''\<rparr>
            else if ev_event_type e = TAB_SWITCH
              then s\<lparr>tab_switches := tab_switches s + 1,
                     last_tab_switch := Some (ev_timestamp e)\<rparr>
            else s)
           \<lparr>event_count := (if ev_event_type e = SESSION_START then 1 else event_count s + 1)\<rparr>)"
  by (simp add: update_session_state_def Let_def new_session_def)

lemma update_start:
  "ev_event_type e = SESSION_START \<Longrightarrow>
   update_session_state e tbl (ev_session_id e) = Some ((new_session e)\<lparr>event_count := 1\<rparr>)"
  by (simp add: update_session_state_def Let_def new_session_def)

lemma analyze_unknown:
  "active_sessions m (ev_session_id e) = None \<Longrightarrow> analyze_security clk m e = Inr (m, [], [])"
  by (simp add: analyze_security_def Let_def)

text \<open>What the analysis writes to the monitor is the \<^verbatim>\<open>risk_score\<close> of a session.\<close>

lemma analyze_frame:
  "analyze_security clk m e = Inr (m', alerts, lg) \<Longrightarrow>
     ml_model m' = ml_model m \<and>
     map_option (\<lambda>s. s\<lparr>risk_score := 0\<rparr>) (active_sessions m' k) =
     map_option (\<lambda>s. s\<lparr>risk_score := 0\<rparr>) (active_sessions m k)"
  by (auto simp: analyze_security_def Let_def split: option.splits sum.splits if_splits)

subsection \<open>The alerts of each rule\<close>

lemma create_alert_level [simp]: "security_level (create_alert t e lvl x) = lvl"
  by (simp add: create_alert_def)

lemma create_alert_description [simp]: "al_description (create_alert t e lvl x) = x"
  by (simp add: create_alert_def)

lemma critical_Nil [simp]: "critical_alerts [] = []"
  by (simp add: critical_alerts_def)

lemma critical_single [simp]:
  "critical_alerts [create_alert t e lvl x] =
     (if lvl = CRITICAL then [create_alert t e lvl x] else [])"
  by (simp add: critical_alerts_def)

lemma critical_append [simp]:
  "critical_alerts (xs @ ys) = critical_alerts xs @ critical_alerts ys"
  by (simp add: critical_alerts_def)

lemma critical_if:
  "critical_alerts (if c then xs else ys) = (if c then critical_alerts xs else critical_alerts ys)"
  by (cases c) simp_all

lemma tab_switch_rule_cases:
  "tab_switch_rule clk e s = [] \<or>
   tab_switch_rule clk e s =
     [create_alert (time_time clk TabRule) e HIGH (ExcessiveTabSwitching (tab_switches s))]"
  by (cases "last_tab_switch s") (simp_all add: tab_switch_rule_def)

lemma inactivity_rule_cases:
  "inactivity_rule clk e = Inr ia \<Longrightarrow>
   ia = [] \<or> (\<exists>x. ia = [create_alert (time_time clk InactivityRule) e MEDIUM (UserInactive x)])"
  by (auto simp: inactivity_rule_def split: if_splits jmeta.splits sum.splits)

lemma critical_tab: "critical_alerts (tab_switch_rule clk e s) = []"
  using tab_switch_rule_cases[of clk e s] by auto

lemma critical_inactivity: "inactivity_rule clk e = Inr ia \<Longrightarrow> critical_alerts ia = []"
  using inactivity_rule_cases[of clk e ia] by auto

lemma critical_heartbeat: "critical_alerts (heartbeat_rule clk e s) = heartbeat_rule clk e s"
  by (simp add: heartbeat_rule_def Let_def critical_if)

text \<open>
  When the analysis of an event of a known session is not cut short, the critical
  alerts it stores are those of the heartbeat rule.
\<close>

lemma analyze_critical:
  assumes "active_sessions m (ev_session_id e) = Some s"
      and "analyze_security clk m e = Inr (m', alerts, lg)"
  shows "critical_alerts alerts = heartbeat_rule clk e s"
proof -
  obtain ia where ia: "inactivity_rule clk e = Inr ia"
    using assms by (cases "inactivity_rule clk e") (auto simp: analyze_security_def Let_def)
  obtain b where b: "model_is_true (ml_model m) = Inr b"
    using assms ia
    by (cases "model_is_true (ml_model m)") (auto simp: analyze_security_def Let_def)
  show ?thesis
    using assms ia b critical_inactivity[OF ia]
    by (auto simp: analyze_security_def Let_def critical_tab critical_heartbeat critical_if)
qed

lemma analyze_completes:
  assumes "active_sessions m (ev_session_id e) = Some s"
      and "inactivity_rule clk e = Inr ia"
      and "model_is_true (ml_model m) = Inr b"
  shows "\<exists>m' alerts lg. analyze_security clk m e = Inr (m', alerts, lg)"
  using assms by (simp add: analyze_security_def Let_def)

subsection \<open>C5: the risk floor\<close>

text \<open>
  Claim C5. Whenever the analysis of an event stores at least one alert, whichever rule
  fired it and whatever the scorer returned, the session of that event ends with a
  \<open>risk_score\<close> of at least 0.8.
\<close>

theorem risk_floor:
  assumes "process_event clk m d = Inr out" and "alerts_stored out \<noteq> []"
  shows "\<exists>e s. build_event (utcnow_ingest clk) d = Inr e \<and>
           active_sessions (monitor_after out) (ev_session_id e) = Some s \<and>
           8 / 10 \<le> risk_score s"
  using assms
  by (auto simp: process_event_def analyze_security_def Let_def
           split: sum.splits option.splits prod.splits if_splits)

theorem risk_floor_witness:
  "\<exists>out. process_event (clock_at 5) (started None)
            (event_dict ''u1'' ''s1'' ''inactivity'' [''duration'' \<mapsto> JNum 45]) = Inr out \<and>
         alerts_stored out \<noteq> [] \<and>
         (\<exists>s. active_sessions (monitor_after out) ''s1'' = Some s \<and> 8 / 10 \<le> risk_score s)"
proof -
  let ?d = "event_dict ''u1'' ''s1'' ''inactivity'' [''duration'' \<mapsto> JNum 45]"
  obtain out where out: "process_event (clock_at 5) (started None) ?d = Inr out"
    using process_event_returns by blast
  have ne: "alerts_stored out \<noteq> []"
    using out by (auto simp add: started_None model_defs fixture_defs)
  have sid: "\<And>e. build_event (utcnow_ingest (clock_at 5)) ?d = Inr e \<Longrightarrow> ev_session_id e = ''s1''"
    by (auto simp add: model_defs fixture_defs)
  show ?thesis
    using risk_floor[OF out ne] out ne sid by auto
qed

subsection \<open>C7: events for an unknown session\<close>

text \<open>
  Claim C7. An event other than \<^verbatim>\<open>session_start\<close> whose session id is not in the
  table is accepted: nothing is logged, the monitor is left exactly as it was (no entry
  created or changed) and no alert is stored.
\<close>

theorem unknown_session_skipped:
  assumes "build_event (utcnow_ingest clk) d = Inr e"
    and "ev_event_type e \<noteq> SESSION_START"
    and "active_sessions m (ev_session_id e) = None"
  shows "process_event clk m d = Inr \<lparr>monitor_after = m, alerts_stored = [], logged = []\<rparr>"
  using assms
  by (simp add: process_event_def update_unknown analyze_unknown)

theorem unknown_session_skipped_witness:
  "process_event (clock_at 5) (fresh_monitor None)
      (event_dict ''u1'' ''s1'' ''heartbeat'' Map.empty) =
   Inr \<lparr>monitor_after = fresh_monitor None, alerts_stored = [], logged = []\<rparr>"
proof -
  let ?e = "\<lparr>ev_user_id = ''u1'', ev_session_id = ''s1'', ev_event_type = HEARTBEAT,
             ev_timestamp = 5000000, ev_metadata = MDict Map.empty,
             ev_device_fingerprint = None, ev_ip_address = None, ev_user_agent = None\<rparr>"
  have b: "build_event (utcnow_ingest (clock_at 5))
             (event_dict ''u1'' ''s1'' ''heartbeat'' Map.empty) = Inr ?e"
    by (simp add: model_defs fixture_defs)
  show ?thesis
    by (rule unknown_session_skipped[OF b]) (simp_all add: fresh_monitor_def)
qed

subsection \<open>C10: heartbeat events\<close>

text \<open>
  Claim C10, as amended. For a heartbeat event of a known session, however old the
  previous heartbeat is and whatever the scorer does, the heartbeat-timeout rule stores
  no alert, provided the analyzer reads its clock no more than 10 seconds after the
  ingestion timestamp. With no scorer nothing is logged either.
\<close>

theorem heartbeat_event_no_timeout:
  assumes "build_event (utcnow_ingest clk) d = Inr e"
    and "ev_event_type e = HEARTBEAT"
    and "active_sessions m (ev_session_id e) = Some s"
    and "utcnow_analyze clk - utcnow_ingest clk \<le> seconds HEARTBEAT_TIMEOUT"
  shows "\<exists>out. process_event clk m d = Inr out \<and>
           critical_alerts (alerts_stored out) = [] \<and>
           (ml_model m = None \<longrightarrow> logged out = [])"
proof -
  let ?m1 = "m\<lparr>active_sessions := update_session_state e (active_sessions m)\<rparr>"
  obtain s1 where s1: "active_sessions ?m1 (ev_session_id e) = Some s1"
    and hb: "last_heartbeat s1 = ev_timestamp e"
    using update_known[of "active_sessions m" e s, OF assms(3)] assms(2) by simp
  have ts: "ev_timestamp e = utcnow_ingest clk"
    using build_event_fields[OF assms(1)] by simp
  have quiet: "heartbeat_rule clk e s1 = []"
    using hb ts assms(4) by (simp add: heartbeat_rule_def Let_def)
  show ?thesis
  proof (cases "analyze_security clk ?m1 e")
    case (Inl err)
    have "ml_model m \<noteq> None"
    proof
      assume n: "ml_model m = None"
      have ia: "inactivity_rule clk e = Inr []"
        using assms(2) by (simp add: inactivity_rule_def)
      have t: "model_is_true (ml_model ?m1) = Inr False"
        using n by (simp add: model_is_true_def)
      from analyze_completes[OF s1 ia t] Inl show False by simp
    qed
    then show ?thesis
      using assms(1) Inl by (simp add: process_event_def)
  next
    case (Inr r)
    obtain m2 alerts lg where r: "r = (m2, alerts, lg)" by (cases r)
    have cr: "critical_alerts alerts = []"
      using analyze_critical[OF s1 Inr[unfolded r]] quiet by simp
    have lg: "ml_model m = None \<Longrightarrow> lg = []"
      using Inr r s1 by (auto simp: analyze_security_def model_is_true_def Let_def
                               split: sum.splits)
    show ?thesis
      using assms(1) Inr r cr lg by (simp add: process_event_def)
  qed
qed

theorem heartbeat_event_no_timeout_witness:
  "\<exists>out. process_event (clock_at 100) (started None)
            (event_dict ''u1'' ''s1'' ''heartbeat'' Map.empty) = Inr out \<and>
         critical_alerts (alerts_stored out) = [] \<and> logged out = []"
proof -
  let ?d = "event_dict ''u1'' ''s1'' ''heartbeat'' Map.empty"
  let ?e = "\<lparr>ev_user_id = ''u1'', ev_session_id = ''s1'', ev_event_type = HEARTBEAT,
             ev_timestamp = 100000000, ev_metadata = MDict Map.empty,
             ev_device_fingerprint = None, ev_ip_address = None, ev_user_agent = None\<rparr>"
  let ?s = "\<lparr>user_id = ''u1'', start_time = 0, last_heartbeat = 0,
         status = ''active'', risk_score = 0, event_count = 1, tab_switches = 0,
         last_tab_switch = None\<rparr>"
  have b: "build_event (utcnow_ingest (clock_at 100)) ?d = Inr ?e"
    by (simp add: model_defs fixture_defs)
  have h: "ev_event_type ?e = HEARTBEAT" by simp
  have k: "active_sessions (started None) (ev_session_id ?e) = Some ?s"
    by (simp add: started_None)
  have l: "utcnow_analyze (clock_at 100) - utcnow_ingest (clock_at 100) \<le> seconds HEARTBEAT_TIMEOUT"
    by (simp add: fixture_defs seconds_def HEARTBEAT_TIMEOUT_def)
  have n: "ml_model (started None) = None" by (simp add: started_None)
  show ?thesis
    using heartbeat_event_no_timeout[OF b h k l] n by auto
qed

text \<open>
  The rule reads the clock again after the awaited event store: a heartbeat stamped at
  second 100 and analysed at second 111 fires it.
\<close>

theorem heartbeat_event_late_counterexample:
  "map (\<lambda>a. (security_level a, al_description a))
     (alerts_of (process_event (clock_lagging 100 11) (started None)
        (event_dict ''u1'' ''s1'' ''heartbeat'' Map.empty))) =
   [(CRITICAL, HeartbeatTimeoutAfter 11000000)]"
  by (simp add: started_None model_defs fixture_defs create_alert_def)

subsection \<open>C1: the tab-switch burst rule\<close>

text \<open>
  After the state update \<^verbatim>\<open>last_tab_switch\<close> is the event's own timestamp, so the
  window test of line 294 compares a difference of zero with one minute and always
  holds: the rule fires exactly when the count of all tab switches since the session
  started exceeds the threshold.
\<close>

lemma tab_switch_rule_after_update:
  assumes "ev_event_type e = TAB_SWITCH" and "tbl (ev_session_id e) = Some s"
  shows "\<exists>s1. update_session_state e tbl (ev_session_id e) = Some s1 \<and>
           tab_switches s1 = tab_switches s + 1 \<and>
           tab_switch_rule clk e s1 =
             (if tab_switches s + 1 > TAB_SWITCH_THRESHOLD
              then [create_alert (time_time clk TabRule) e HIGH
                      (ExcessiveTabSwitching (tab_switches s + 1))]
              else [])"
  using assms update_known[of tbl e s]
  by (simp add: tab_switch_rule_def seconds_def)

text \<open>
  Claim C1 asks for a sliding window: tab switches at seconds 0, 5 and 10 and a fourth
  at second 100 must not alert, since one switch lies within the last 60 seconds. The
  code stores a high-severity alert for the fourth, reporting 4 switches in 1 minute
  (and, the session having sent no heartbeat for 100 seconds, the critical alert of the
  heartbeat rule).
\<close>

theorem tab_switch_alert_outside_window:
  "map (\<lambda>a. (security_level a, al_description a))
     (alerts_of (process_event (clock_at 100)
        (run (started None)
           [(clock_at 0, event_dict ''u1'' ''s1'' ''tab_switch'' Map.empty),
            (clock_at 5, event_dict ''u1'' ''s1'' ''tab_switch'' Map.empty),
            (clock_at 10, event_dict ''u1'' ''s1'' ''tab_switch'' Map.empty)])
        (event_dict ''u1'' ''s1'' ''tab_switch'' Map.empty))) =
     [(HIGH, ExcessiveTabSwitching 4), (CRITICAL, HeartbeatTimeoutAfter 100000000)] \<and>
   sliding_window_count [seconds 0, seconds 5, seconds 10, seconds 100] (seconds 100) = 1"
  by (simp add: started_None model_defs fixture_defs create_alert_def sliding_window_count_def)

subsection \<open>C9: alert identifiers\<close>

text \<open>
  Claim C9 asks for distinct identifiers. An inactivity event of 45 seconds, 20 seconds
  after the last heartbeat, stores two different alerts in one evaluation; both calls of
  \<^verbatim>\<open>_create_alert\<close> read the same second, and both alerts get the identifier
  \<^verbatim>\<open>alert_20_s1\<close>.
\<close>

theorem alert_id_collision:
  "map (\<lambda>a. (alert_id a, security_level a, al_description a))
     (alerts_of (process_event (clock_at 20) (started None)
        (event_dict ''u1'' ''s1'' ''inactivity'' [''duration'' \<mapsto> JNum 45]))) =
   [(''alert_20_s1'', MEDIUM, UserInactive (JNum 45)),
    (''alert_20_s1'', CRITICAL, HeartbeatTimeoutAfter 20000000)]"
  by (simp add: started_None model_defs fixture_defs create_alert_def
        str_int_def str_nat.simps digit_char_def)

subsection \<open>C3: the session after \<^verbatim>\<open>session_start\<close>\<close>

lemma calculate_ml_risk_score_range:
  "0 \<le> fst (calculate_ml_risk_score m e s) \<and> fst (calculate_ml_risk_score m e s) \<le> 1"
  by (simp add: calculate_ml_risk_score_def split: option.splits sum.splits)

lemma analyze_row:
  assumes "analyze_security clk m e = Inr (m', alerts, lg)"
    and "active_sessions m (ev_session_id e) = Some s"
    and "0 \<le> risk_score s \<and> risk_score s \<le> 1"
  shows "\<exists>s'. active_sessions m' (ev_session_id e) = Some s' \<and>
           s'\<lparr>risk_score := 0\<rparr> = s\<lparr>risk_score := 0\<rparr> \<and>
           0 \<le> risk_score s' \<and> risk_score s' \<le> 1"
proof -
  obtain ia where ia: "inactivity_rule clk e = Inr ia"
    using assms(1,2) by (cases "inactivity_rule clk e") (auto simp: analyze_security_def Let_def)
  obtain b where b: "model_is_true (ml_model m) = Inr b"
    using assms(1,2) ia
    by (cases "model_is_true (ml_model m)") (auto simp: analyze_security_def Let_def)
  note r = calculate_ml_risk_score_range[of m e s]
  show ?thesis
  proof (cases b)
    case True
    then show ?thesis
      using assms ia b r by (auto simp: analyze_security_def Let_def)
  next
    case False
    then show ?thesis
      using assms ia b by (auto simp: analyze_security_def Let_def)
  qed
qed

lemma analyze_no_model:
  assumes "active_sessions m (ev_session_id e) = Some s"
    and "inactivity_rule clk e = Inr ia"
    and "ml_model m = None"
  shows "analyze_security clk m e =
           (let alerts = tab_switch_rule clk e s @ ia @ heartbeat_rule clk e s
            in Inr (m\<lparr>active_sessions := (active_sessions m)(ev_session_id e \<mapsto>
                      (if alerts \<noteq> []
                       then s\<lparr>risk_score := max (risk_score s) (8 / 10)\<rparr> else s))\<rparr>,
                    alerts, []))"
  using assms by (simp add: analyze_security_def model_is_true_def Let_def)

text \<open>
  Claim C3, as amended. After the pipeline has processed a \<^verbatim>\<open>session_start\<close> event
  the session is active, with no tab switch recorded, \<^verbatim>\<open>last_heartbeat\<close> and
  \<^verbatim>\<open>start_time\<close> equal to the ingestion timestamp, and an \<^verbatim>\<open>event_count\<close> of 1: the
  entry is created with 0 and the start event is then counted like every other event.
  The \<^verbatim>\<open>risk_score\<close> lies between 0 and 1; it is 0, with no alert stored and nothing
  logged, when no scorer is configured and the analyzer reads its clock no more than 10
  seconds after the ingestion timestamp.
\<close>

theorem session_start_result:
  assumes "build_event (utcnow_ingest clk) d = Inr e" and "ev_event_type e = SESSION_START"
  shows "\<exists>out s. process_event clk m d = Inr out \<and>
           active_sessions (monitor_after out) (ev_session_id e) = Some s \<and>
           user_id s = ev_user_id e \<and> start_time s = utcnow_ingest clk \<and>
           last_heartbeat s = utcnow_ingest clk \<and> status s = ''active'' \<and>
           event_count s = 1 \<and> tab_switches s = 0 \<and> last_tab_switch s = None \<and>
           0 \<le> risk_score s \<and> risk_score s \<le> 1 \<and>
           (ml_model m = None \<longrightarrow> logged out = []) \<and>
           (ml_model m = None \<and>
            utcnow_analyze clk - utcnow_ingest clk \<le> seconds HEARTBEAT_TIMEOUT \<longrightarrow>
              risk_score s = 0 \<and> alerts_stored out = [])"
proof -
  let ?m1 = "m\<lparr>active_sessions := update_session_state e (active_sessions m)\<rparr>"
  let ?s1 = "(new_session e)\<lparr>event_count := 1\<rparr>"
  have ts: "ev_timestamp e = utcnow_ingest clk"
    using build_event_fields[OF assms(1)] by simp
  have s1: "active_sessions ?m1 (ev_session_id e) = Some ?s1"
    using assms(2) by (simp add: update_start)
  have r1: "0 \<le> risk_score ?s1 \<and> risk_score ?s1 \<le> 1"
    by (simp add: new_session_def)
  have ia: "inactivity_rule clk e = Inr []"
    using assms(2) by (simp add: inactivity_rule_def)
  have tab: "tab_switch_rule clk e ?s1 = []"
    using assms(2) by (simp add: tab_switch_rule_def)
  have hb: "utcnow_analyze clk - utcnow_ingest clk \<le> seconds HEARTBEAT_TIMEOUT \<Longrightarrow>
            heartbeat_rule clk e ?s1 = []"
    using ts by (simp add: heartbeat_rule_def Let_def new_session_def)
  show ?thesis
  proof (cases "analyze_security clk ?m1 e")
    case (Inl err)
    have "ml_model m \<noteq> None"
    proof
      assume n: "ml_model m = None"
      have t: "model_is_true (ml_model ?m1) = Inr False"
        using n by (simp add: model_is_true_def)
      from analyze_completes[OF s1 ia t] Inl show False by simp
    qed
    then show ?thesis
      using assms(1) Inl s1 ts by (simp add: process_event_def new_session_def)
  next
    case (Inr r)
    obtain m2 alerts lg where r: "r = (m2, alerts, lg)" by (cases r)
    note a = Inr[unfolded r]
    obtain s where s: "active_sessions m2 (ev_session_id e) = Some s"
      and same: "s\<lparr>risk_score := 0\<rparr> = ?s1\<lparr>risk_score := 0\<rparr>"
      and range: "0 \<le> risk_score s \<and> risk_score s \<le> 1"
      using analyze_row[OF a s1 r1] by auto
    have f: "user_id s = user_id ?s1 \<and> start_time s = start_time ?s1 \<and>
             last_heartbeat s = last_heartbeat ?s1 \<and> status s = status ?s1 \<and>
             event_count s = event_count ?s1 \<and> tab_switches s = tab_switches ?s1 \<and>
             last_tab_switch s = last_tab_switch ?s1"
      using same by (metis session.select_convs session.surjective session.update_convs(5))
    have n: "ml_model m = None \<Longrightarrow>
             lg = [] \<and> alerts = heartbeat_rule clk e ?s1 \<and>
             (alerts = [] \<longrightarrow> risk_score s = 0)"
      using analyze_no_model[OF s1 ia, of ] a s tab by (auto simp: new_session_def)
    have out: "process_event clk m d =
                 Inr \<lparr>monitor_after = m2, alerts_stored = alerts, logged = lg\<rparr>"
      using assms(1) a by (simp add: process_event_def)
    show ?thesis
      using out s f range n hb ts by (auto simp: new_session_def)
  qed
qed

theorem session_start_result_witness:
  "\<exists>out s. process_event (clock_at 7) (fresh_monitor None)
              (event_dict ''u1'' ''s1'' ''session_start'' Map.empty) = Inr out \<and>
           logged out = [] \<and>
           active_sessions (monitor_after out) ''s1'' = Some s \<and>
           user_id s = ''u1'' \<and> start_time s = 7000000 \<and> last_heartbeat s = 7000000 \<and>
           status s = ''active'' \<and> event_count s = 1 \<and> tab_switches s = 0 \<and>
           last_tab_switch s = None \<and> risk_score s = 0 \<and> alerts_stored out = []"
proof -
  let ?d = "event_dict ''u1'' ''s1'' ''session_start'' Map.empty"
  let ?e = "\<lparr>ev_user_id = ''u1'', ev_session_id = ''s1'', ev_event_type = SESSION_START,
             ev_timestamp = 7000000, ev_metadata = MDict Map.empty,
             ev_device_fingerprint = None, ev_ip_address = None, ev_user_agent = None\<rparr>"
  have b: "build_event (utcnow_ingest (clock_at 7)) ?d = Inr ?e"
    by (simp add: model_defs fixture_defs)
  have t: "ev_event_type ?e = SESSION_START" by simp
  show ?thesis
    using session_start_result[OF b t, of "fresh_monitor None"]
    by (auto simp add: fixture_defs seconds_def HEARTBEAT_TIMEOUT_def)
qed

text \<open>
  The claim as stated fails on every \<^verbatim>\<open>session_start\<close>: the \<^verbatim>\<open>event_count\<close> is 1,
  not 0; and with a scorer that returns a margin of -1 the \<^verbatim>\<open>risk_score\<close> is 1.
\<close>

theorem session_start_counterexample:
  "session_of (process_event (clock_at 0) (fresh_monitor None)
      (event_dict ''u1'' ''s1'' ''session_start'' Map.empty)) ''s1'' =
     Some \<lparr>user_id = ''u1'', start_time = 0, last_heartbeat = 0, status = ''active'',
           risk_score = 0, event_count = 1, tab_switches = 0, last_tab_switch = None\<rparr> \<and>
   session_of (process_event (clock_at 0) (fresh_monitor (Some (constant_model (- 1))))
      (event_dict ''u1'' ''s1'' ''session_start'' Map.empty)) ''s1'' =
     Some \<lparr>user_id = ''u1'', start_time = 0, last_heartbeat = 0, status = ''active'',
           risk_score = 1, event_count = 1, tab_switches = 0, last_tab_switch = None\<rparr>"
  by (simp add: model_defs fixture_defs model_sel)

subsection \<open>C8: ended sessions\<close>

lemma update_keeps_rows:
  "tbl k = Some s \<Longrightarrow> \<exists>s'. update_session_state e tbl k = Some s'"
  by (cases "k = ev_session_id e") (simp_all add: update_known update_other)

lemma update_keeps_ended:
  assumes "tbl k = Some s" and "status s = ''ended''"
    and "\<not> (ev_session_id e = k \<and> ev_event_type e = SESSION_START)"
  shows "\<exists>s'. update_session_state e tbl k = Some s' \<and> status s' = ''ended''"
proof (cases "k = ev_session_id e")
  case True
  then show ?thesis
    using assms update_known[of tbl e s] by auto
next
  case False
  then show ?thesis using assms by (simp add: update_other)
qed

lemma analyze_keeps_status:
  assumes "analyze_security clk m e = Inr (m', alerts, lg)" and "active_sessions m k = Some s"
  shows "\<exists>s'. active_sessions m' k = Some s' \<and> status s' = status s"
proof -
  have "map_option (\<lambda>s. s\<lparr>risk_score := 0\<rparr>) (active_sessions m' k) =
        Some (s\<lparr>risk_score := 0\<rparr>)"
    using analyze_frame[OF assms(1), of k] assms(2) by simp
  then obtain s' where s': "active_sessions m' k = Some s'"
    and eq: "s'\<lparr>risk_score := 0\<rparr> = s\<lparr>risk_score := 0\<rparr>"
    by auto
  have "status (s'\<lparr>risk_score := 0\<rparr>) = status (s\<lparr>risk_score := 0\<rparr>)"
    using eq by simp
  then show ?thesis using s' by simp
qed

lemma step_keeps_rows:
  assumes "active_sessions m k = Some s"
  shows "\<exists>s'. active_sessions (step m ce) k = Some s'"
proof (cases "build_event (utcnow_ingest (fst ce)) (snd ce)")
  case (Inl err)
  then show ?thesis using assms by (simp add: step_def process_event_def)
next
  case (Inr e)
  let ?m1 = "m\<lparr>active_sessions := update_session_state e (active_sessions m)\<rparr>"
  obtain s1 where s1: "active_sessions ?m1 k = Some s1"
    using update_keeps_rows[of "active_sessions m" k s e] assms by auto
  show ?thesis
  proof (cases "analyze_security (fst ce) ?m1 e")
    case (Inl err)
    then show ?thesis using Inr s1 by (simp add: step_def process_event_def)
  next
    case r: (Inr r)
    obtain m2 alerts lg where "r = (m2, alerts, lg)" by (cases r)
    with r have a: "analyze_security (fst ce) ?m1 e = Inr (m2, alerts, lg)" by simp
    show ?thesis
      using Inr a analyze_keeps_status[OF a s1]
      by (auto simp: step_def process_event_def)
  qed
qed

lemma step_keeps_ended:
  assumes "active_sessions m k = Some s" and "status s = ''ended''"
    and "\<not> (d_session_id (snd ce) = Some k \<and> d_event_type (snd ce) = Some ''session_start'')"
  shows "\<exists>s'. active_sessions (step m ce) k = Some s' \<and> status s' = ''ended''"
proof (cases "build_event (utcnow_ingest (fst ce)) (snd ce)")
  case (Inl err)
  then show ?thesis using assms by (simp add: step_def process_event_def)
next
  case (Inr e)
  have ns: "\<not> (ev_session_id e = k \<and> ev_event_type e = SESSION_START)"
    using build_event_fields[OF Inr] assms(3) EventType_of_start by auto
  let ?m1 = "m\<lparr>active_sessions := update_session_state e (active_sessions m)\<rparr>"
  obtain s1 where s1: "active_sessions ?m1 k = Some s1" and e1: "status s1 = ''ended''"
    using update_keeps_ended[of "active_sessions m" k s e] assms(1,2) ns by auto
  show ?thesis
  proof (cases "analyze_security (fst ce) ?m1 e")
    case (Inl err)
    then show ?thesis using Inr s1 e1 by (simp add: step_def process_event_def)
  next
    case r: (Inr r)
    obtain m2 alerts lg where "r = (m2, alerts, lg)" by (cases r)
    with r have a: "analyze_security (fst ce) ?m1 e = Inr (m2, alerts, lg)" by simp
    show ?thesis
      using Inr a analyze_keeps_status[OF a s1] e1
      by (auto simp: step_def process_event_def)
  qed
qed

lemma run_keeps_rows:
  "active_sessions m k = Some s \<Longrightarrow> \<exists>s'. active_sessions (run m ces) k = Some s'"
proof (induction ces arbitrary: m s)
  case Nil
  then show ?case by (simp add: run_def)
next
  case (Cons ce ces)
  obtain s1 where "active_sessions (step m ce) k = Some s1"
    using step_keeps_rows[OF Cons.prems, of ce] by auto
  from Cons.IH[OF this] show ?case by (simp add: run_def)
qed

lemma run_keeps_ended:
  "active_sessions m k = Some s \<Longrightarrow> status s = ''ended'' \<Longrightarrow>
   \<forall>ce \<in> set ces. \<not> (d_session_id (snd ce) = Some k \<and>
                       d_event_type (snd ce) = Some ''session_start'') \<Longrightarrow>
   \<exists>s'. active_sessions (run m ces) k = Some s' \<and> status s' = ''ended''"
proof (induction ces arbitrary: m s)
  case Nil
  then show ?case by (simp add: run_def)
next
  case (Cons ce ces)
  have "\<not> (d_session_id (snd ce) = Some k \<and> d_event_type (snd ce) = Some ''session_start'')"
    using Cons.prems(3) by simp
  from step_keeps_ended[OF Cons.prems(1,2), of ce, OF this]
  obtain s1 where s1: "active_sessions (step m ce) k = Some s1" and e1: "status s1 = ''ended''"
    by auto
  have "\<forall>ce \<in> set ces. \<not> (d_session_id (snd ce) = Some k \<and>
                       d_event_type (snd ce) = Some ''session_start'')"
    using Cons.prems(3) by simp
  from Cons.IH[OF s1 e1 this] show ?case by (simp add: run_def)
qed

text \<open>
  Claim C8, as amended. Once a session is ended, no sequence of events processed by the
  pipeline that holds no \<^verbatim>\<open>session_start\<close> for that session id changes its status; a
  \<^verbatim>\<open>session_start\<close> for the id replaces the entry by a fresh active session. No
  sequence of events whatsoever removes the entry; the sweep of
  \<^verbatim>\<open>cleanup_expired_sessions\<close> removes it.
\<close>

theorem ended_is_kept:
  assumes "active_sessions m sid = Some s" and "status s = ''ended''"
  shows "(\<forall>ces. (\<forall>ce \<in> set ces. \<not> (d_session_id (snd ce) = Some sid \<and>
                       d_event_type (snd ce) = Some ''session_start'')) \<longrightarrow>
            (\<exists>s'. active_sessions (run m ces) sid = Some s' \<and> status s' = ''ended'')) \<and>
         (\<forall>ces. active_sessions (run m ces) sid \<noteq> None) \<and>
         (\<forall>current_time. active_sessions (cleanup_expired_sessions current_time m) sid = None)"
proof (intro conjI allI impI)
  fix ces :: "(clock \<times> EventData) list"
  assume "\<forall>ce \<in> set ces. \<not> (d_session_id (snd ce) = Some sid \<and>
                       d_event_type (snd ce) = Some ''session_start'')"
  from run_keeps_ended[OF assms this]
  show "\<exists>s'. active_sessions (run m ces) sid = Some s' \<and> status s' = ''ended''" .
next
  fix ces
  show "active_sessions (run m ces) sid \<noteq> None"
    using run_keeps_rows[OF assms(1), of ces] by auto
next
  fix current_time
  show "active_sessions (cleanup_expired_sessions current_time m) sid = None"
    using assms by (simp add: cleanup_expired_sessions_def expired_def)
qed

theorem ended_is_kept_witness:
  "(\<exists>s'. active_sessions
           (run (run (started None)
                   [(clock_at 1, event_dict ''u1'' ''s1'' ''session_end'' Map.empty)])
              [(clock_at 2, event_dict ''u1'' ''s1'' ''heartbeat'' Map.empty),
               (clock_at 3, event_dict ''u1'' ''s1'' ''tab_switch'' Map.empty),
               (clock_at 4, event_dict ''u2'' ''s2'' ''session_start'' Map.empty)]) ''s1'' =
         Some s' \<and> status s' = ''ended'') \<and>
   active_sessions
     (cleanup_expired_sessions (seconds 2)
        (run (started None)
           [(clock_at 1, event_dict ''u1'' ''s1'' ''session_end'' Map.empty)])) ''s1'' = None"
proof -
  let ?m = "run (started None) [(clock_at 1, event_dict ''u1'' ''s1'' ''session_end'' Map.empty)]"
  let ?s = "\<lparr>user_id = ''u1'', start_time = 0, last_heartbeat = 0, status = ''ended'',
            risk_score = 0, event_count = 2, tab_switches = 0, last_tab_switch = None\<rparr>"
  let ?ces = "[(clock_at 2, event_dict ''u1'' ''s1'' ''heartbeat'' Map.empty),
               (clock_at 3, event_dict ''u1'' ''s1'' ''tab_switch'' Map.empty),
               (clock_at 4, event_dict ''u2'' ''s2'' ''session_start'' Map.empty)]"
  have k: "active_sessions ?m ''s1'' = Some ?s"
    by (simp add: started_None model_defs fixture_defs)
  have st: "status ?s = ''ended''" by simp
  have h: "\<forall>ce \<in> set ?ces. \<not> (d_session_id (snd ce) = Some ''s1'' \<and>
                       d_event_type (snd ce) = Some ''session_start'')"
    by (simp add: event_dict_def)
  note t = ended_is_kept[OF k st]
  from t[THEN conjunct1, THEN spec, of ?ces, THEN mp, OF h]
    t[THEN conjunct2, THEN conjunct2, THEN spec, of "seconds 2"]
  show ?thesis by simp
qed

text \<open>
  The claim as stated fails: after \<^verbatim>\<open>session_end\<close>, a \<^verbatim>\<open>session_start\<close> for the
  same id makes the status active again.
\<close>

theorem ended_restarted_counterexample:
  "map_option status (active_sessions (run (started None)
      [(clock_at 1, event_dict ''u1'' ''s1'' ''session_end'' Map.empty)]) ''s1'') =
     Some ''ended'' \<and>
   map_option status (active_sessions (run (started None)
      [(clock_at 1, event_dict ''u1'' ''s1'' ''session_end'' Map.empty),
       (clock_at 2, event_dict ''u1'' ''s1'' ''session_start'' Map.empty)]) ''s1'') =
     Some ''active''"
  by (simp add: started_None model_defs fixture_defs)

subsection \<open>C2: validation\<close>

text \<open>
  The session table after an event that was built is the one \<^verbatim>\<open>update_session_state\<close>
  left, up to the \<^verbatim>\<open>risk_score\<close> the analysis writes.
\<close>

lemma step_row:
  assumes "build_event (utcnow_ingest clk) d = Inr e"
  shows "map_option (\<lambda>s. s\<lparr>risk_score := 0\<rparr>) (active_sessions (step m (clk, d)) k) =
         map_option (\<lambda>s. s\<lparr>risk_score := 0\<rparr>) (update_session_state e (active_sessions m) k)"
proof -
  let ?m1 = "m\<lparr>active_sessions := update_session_state e (active_sessions m)\<rparr>"
  show ?thesis
  proof (cases "analyze_security clk ?m1 e")
    case (Inl err)
    then show ?thesis using assms by (simp add: step_def process_event_def)
  next
    case (Inr r)
    obtain m2 alerts lg where r: "r = (m2, alerts, lg)" by (cases r)
    show ?thesis
      using assms Inr r analyze_frame[OF Inr[unfolded r], of k]
      by (simp add: step_def process_event_def)
  qed
qed

lemma same_but_risk:
  "s'\<lparr>risk_score := 0\<rparr> = s\<lparr>risk_score := 0\<rparr> \<Longrightarrow>
   user_id s' = user_id s \<and> status s' = status s \<and> event_count s' = event_count s"
proof -
  assume eq: "s'\<lparr>risk_score := 0\<rparr> = s\<lparr>risk_score := 0\<rparr>"
  have "user_id (s'\<lparr>risk_score := 0\<rparr>) = user_id (s\<lparr>risk_score := 0\<rparr>)"
       "status (s'\<lparr>risk_score := 0\<rparr>) = status (s\<lparr>risk_score := 0\<rparr>)"
       "event_count (s'\<lparr>risk_score := 0\<rparr>) = event_count (s\<lparr>risk_score := 0\<rparr>)"
    using eq by simp_all
  then show ?thesis by simp
qed

lemma step_session_start:
  assumes "build_event (utcnow_ingest clk) d = Inr e" and "ev_event_type e = SESSION_START"
  shows "\<exists>s. active_sessions (step m (clk, d)) (ev_session_id e) = Some s \<and>
           user_id s = ev_user_id e \<and> status s = ''active'' \<and> event_count s = 1"
proof -
  have "map_option (\<lambda>s. s\<lparr>risk_score := 0\<rparr>)
          (active_sessions (step m (clk, d)) (ev_session_id e)) =
        Some (((new_session e)\<lparr>event_count := 1\<rparr>)\<lparr>risk_score := 0\<rparr>)"
    using step_row[OF assms(1), of m "ev_session_id e"] assms(2) by (simp add: update_start)
  then obtain s where s: "active_sessions (step m (clk, d)) (ev_session_id e) = Some s"
    and eq: "s\<lparr>risk_score := 0\<rparr> = ((new_session e)\<lparr>event_count := 1\<rparr>)\<lparr>risk_score := 0\<rparr>"
    by auto
  from same_but_risk[OF eq] s show ?thesis by (simp add: new_session_def)
qed

lemma step_counts_event:
  assumes "build_event (utcnow_ingest clk) d = Inr e" and "ev_event_type e \<noteq> SESSION_START"
    and "active_sessions m (ev_session_id e) = Some s0"
  shows "\<exists>s. active_sessions (step m (clk, d)) (ev_session_id e) = Some s \<and>
           user_id s = user_id s0 \<and> event_count s = event_count s0 + 1"
proof -
  let ?s1 = "(if ev_event_type e = HEARTBEAT then s0\<lparr>last_heartbeat := ev_timestamp e\<rparr>
            else if ev_event_type e = SESSION_END then s0\<lparr>status := ''ended''\<rparr>
            else if ev_event_type e = TAB_SWITCH
              then s0\<lparr>tab_switches := tab_switches s0 + 1,
                      last_tab_switch := Some (ev_timestamp e)\<rparr>
            else s0)\<lparr>event_count := event_count s0 + 1\<rparr>"
  have u: "update_session_state e (active_sessions m) (ev_session_id e) = Some ?s1"
    using update_known[of "active_sessions m" e s0, OF assms(3)] assms(2) by simp
  have "map_option (\<lambda>s. s\<lparr>risk_score := 0\<rparr>)
          (active_sessions (step m (clk, d)) (ev_session_id e)) =
        Some (?s1\<lparr>risk_score := 0\<rparr>)"
    using step_row[OF assms(1), of m "ev_session_id e"] u by simp
  then obtain s where s: "active_sessions (step m (clk, d)) (ev_session_id e) = Some s"
    and eq: "s\<lparr>risk_score := 0\<rparr> = ?s1\<lparr>risk_score := 0\<rparr>"
    by auto
  from same_but_risk[OF eq] s show ?thesis by auto
qed

text \<open>
  Claim C2, as amended. When building the event raises (\<^verbatim>\<open>user_id\<close>, \<^verbatim>\<open>session_id\<close>
  or \<^verbatim>\<open>event_type\<close> is missing, or \<^verbatim>\<open>event_type\<close> is not one of the ten values) no
  session state is changed and no alert is stored; over REST a body without one of the
  three keys is refused with status 422 before the pipeline runs. Nothing checks that
  \<^verbatim>\<open>user_id\<close> and \<^verbatim>\<open>session_id\<close> are non-empty: with the three keys there and a
  known \<^verbatim>\<open>event_type\<close>, whatever the two strings are, the event is ingested: a
  \<^verbatim>\<open>session_start\<close> creates the active session of that id and user with an
  \<^verbatim>\<open>event_count\<close> of 1, and any other event of a known session adds 1 to its
  \<^verbatim>\<open>event_count\<close>.
\<close>

theorem validation_outcome:
  "(\<forall>err. build_event (utcnow_ingest clk) d = Inl err \<longrightarrow>
      step m (clk, d) = m \<and> alerts_of (process_event clk m d) = []) \<and>
   (d_user_id d = None \<or> d_session_id d = None \<or> d_event_type d = None \<longrightarrow>
      (\<exists>k. build_event (utcnow_ingest clk) d = Inl (KeyError k)) \<and>
      receive_event clk m d = (HTTP422, m)) \<and>
   (\<forall>u sid v. d_user_id d = Some u \<and> d_session_id d = Some sid \<and> d_event_type d = Some v \<longrightarrow>
      (v \<notin> set event_type_values \<longrightarrow>
         build_event (utcnow_ingest clk) d = Inl (ValueError v)) \<and>
      (v = ''session_start'' \<longrightarrow>
         (\<exists>s. active_sessions (step m (clk, d)) sid = Some s \<and>
              user_id s = u \<and> status s = ''active'' \<and> event_count s = 1)) \<and>
      (v \<in> set event_type_values \<and> v \<noteq> ''session_start'' \<longrightarrow>
         (\<forall>s0. active_sessions m sid = Some s0 \<longrightarrow>
            (\<exists>s. active_sessions (step m (clk, d)) sid = Some s \<and>
                 user_id s = user_id s0 \<and> event_count s = event_count s0 + 1))))"
proof (intro conjI allI impI)
  fix err assume "build_event (utcnow_ingest clk) d = Inl err"
  then show "step m (clk, d) = m" "alerts_of (process_event clk m d) = []"
    by (simp_all add: step_def process_event_def alerts_of_def)
next
  assume h: "d_user_id d = None \<or> d_session_id d = None \<or> d_event_type d = None"
  then show "\<exists>k. build_event (utcnow_ingest clk) d = Inl (KeyError k)"
    by (auto simp: build_event_def split: option.splits)
  from h show "receive_event clk m d = (HTTP422, m)"
    by (auto simp: receive_event_def body_accepted_def)
next
  fix u sid v
  assume h: "d_user_id d = Some u \<and> d_session_id d = Some sid \<and> d_event_type d = Some v"
  { assume "v \<notin> set event_type_values"
    then show "build_event (utcnow_ingest clk) d = Inl (ValueError v)"
      using h by (simp add: build_event_def EventType_of_unknown) }
  { assume v: "v = ''session_start''"
    let ?e = "\<lparr>ev_user_id = u, ev_session_id = sid, ev_event_type = SESSION_START,
               ev_timestamp = utcnow_ingest clk,
               ev_metadata = (case d_metadata d of Some md \<Rightarrow> md | None \<Rightarrow> MDict Map.empty),
               ev_device_fingerprint = d_device_fingerprint d,
               ev_ip_address = d_ip_address d,
               ev_user_agent = d_user_agent d\<rparr>"
    have b: "build_event (utcnow_ingest clk) d = Inr ?e"
      using h v by (simp add: build_event_def EventType_of_def)
    from step_session_start[OF b, of m]
    show "\<exists>s. active_sessions (step m (clk, d)) sid = Some s \<and>
              user_id s = u \<and> status s = ''active'' \<and> event_count s = 1"
      by simp }
  { fix s0
    assume v: "v \<in> set event_type_values \<and> v \<noteq> ''session_start''"
      and k: "active_sessions m sid = Some s0"
    obtain et where et: "EventType_of v = Inr et"
      using v EventType_of_known by blast
    have ns: "et \<noteq> SESSION_START"
      using et v EventType_of_start by blast
    let ?e = "\<lparr>ev_user_id = u, ev_session_id = sid, ev_event_type = et,
               ev_timestamp = utcnow_ingest clk,
               ev_metadata = (case d_metadata d of Some md \<Rightarrow> md | None \<Rightarrow> MDict Map.empty),
               ev_device_fingerprint = d_device_fingerprint d,
               ev_ip_address = d_ip_address d,
               ev_user_agent = d_user_agent d\<rparr>"
    have b: "build_event (utcnow_ingest clk) d = Inr ?e"
      using h et by (simp add: build_event_def)
    from step_counts_event[OF b, of m s0] ns k
    show "\<exists>s. active_sessions (step m (clk, d)) sid = Some s \<and>
                 user_id s = user_id s0 \<and> event_count s = event_count s0 + 1"
      by simp }
qed

theorem validation_outcome_witness:
  "build_event (utcnow_ingest (clock_at 0)) (event_dict ''u1'' ''s1'' ''bogus'' Map.empty) =
     Inl (ValueError ''bogus'') \<and>
   step (started None) (clock_at 0, event_dict ''u1'' ''s1'' ''bogus'' Map.empty) =
     started None \<and>
   alerts_of (process_event (clock_at 0) (started None)
      (event_dict ''u1'' ''s1'' ''bogus'' Map.empty)) = [] \<and>
   receive_event (clock_at 0) (started None)
      ((event_dict ''u1'' ''s1'' ''heartbeat'' Map.empty)\<lparr>d_session_id := None\<rparr>) =
     (HTTP422, started None) \<and>
   (\<exists>s. active_sessions
          (step (started None) (clock_at 0, event_dict '''' '''' ''session_start'' Map.empty))
          '''' = Some s \<and>
        user_id s = '''' \<and> status s = ''active'' \<and> event_count s = 1) \<and>
   (\<exists>s. active_sessions
          (step (step (started None)
                   (clock_at 0, event_dict '''' '''' ''session_start'' Map.empty))
             (clock_at 1, event_dict '''' '''' ''heartbeat'' Map.empty))
          '''' = Some s \<and>
        user_id s = '''' \<and> event_count s = 2)"
proof -
  let ?bogus = "event_dict ''u1'' ''s1'' ''bogus'' Map.empty"
  let ?nokey = "(event_dict ''u1'' ''s1'' ''heartbeat'' Map.empty)\<lparr>d_session_id := None\<rparr>"
  let ?start = "event_dict '''' '''' ''session_start'' Map.empty"
  let ?beat = "event_dict '''' '''' ''heartbeat'' Map.empty"
  let ?m1 = "step (started None) (clock_at 0, ?start)"
  let ?s0 = "\<lparr>user_id = '''', start_time = 0, last_heartbeat = 0, status = ''active'',
             risk_score = 0, event_count = 1, tab_switches = 0, last_tab_switch = None\<rparr>"
  have f1: "d_user_id ?bogus = Some ''u1'' \<and> d_session_id ?bogus = Some ''s1'' \<and>
            d_event_type ?bogus = Some ''bogus''"
    by (simp add: event_dict_def)
  have n1: "''bogus'' \<notin> set event_type_values"
    by (simp add: event_type_values_def)
  have f2: "d_user_id ?nokey = None \<or> d_session_id ?nokey = None \<or> d_event_type ?nokey = None"
    by simp
  have f3: "d_user_id ?start = Some '''' \<and> d_session_id ?start = Some '''' \<and>
            d_event_type ?start = Some ''session_start''"
    by (simp add: event_dict_def)
  have f4: "d_user_id ?beat = Some '''' \<and> d_session_id ?beat = Some '''' \<and>
            d_event_type ?beat = Some ''heartbeat''"
    by (simp add: event_dict_def)
  have n4: "''heartbeat'' \<in> set event_type_values \<and> ''heartbeat'' \<noteq> ''session_start''"
    by (simp add: event_type_values_def)
  have k4: "active_sessions ?m1 '''' = Some ?s0"
    by (simp add: started_None model_defs fixture_defs)
  note a = validation_outcome[of "clock_at 0" ?bogus "started None"]
  note b = validation_outcome[of "clock_at 0" ?nokey "started None"]
  note c = validation_outcome[of "clock_at 0" ?start "started None"]
  note e = validation_outcome[of "clock_at 1" ?beat ?m1]
  have a1: "build_event (utcnow_ingest (clock_at 0)) ?bogus = Inl (ValueError ''bogus'')"
    using a[THEN conjunct2, THEN conjunct2, THEN spec, THEN spec, THEN spec, THEN mp, OF f1,
            THEN conjunct1, THEN mp, OF n1] .
  have a2: "step (started None) (clock_at 0, ?bogus) = started None \<and>
            alerts_of (process_event (clock_at 0) (started None) ?bogus) = []"
    using a[THEN conjunct1, THEN spec, THEN mp, OF a1] .
  have b1: "receive_event (clock_at 0) (started None) ?nokey = (HTTP422, started None)"
    using b[THEN conjunct2, THEN conjunct1, THEN mp, OF f2, THEN conjunct2] .
  have c1: "\<exists>s. active_sessions (step (started None) (clock_at 0, ?start)) '''' = Some s \<and>
              user_id s = '''' \<and> status s = ''active'' \<and> event_count s = 1"
    using c[THEN conjunct2, THEN conjunct2, THEN spec, THEN spec, THEN spec, THEN mp, OF f3,
            THEN conjunct2, THEN conjunct1, THEN mp, OF refl] .
  have e1: "\<exists>s. active_sessions (step ?m1 (clock_at 1, ?beat)) '''' = Some s \<and>
              user_id s = user_id ?s0 \<and> event_count s = event_count ?s0 + 1"
    using e[THEN conjunct2, THEN conjunct2, THEN spec, THEN spec, THEN spec, THEN mp, OF f4,
            THEN conjunct2, THEN conjunct2, THEN mp, OF n4, THEN spec, THEN mp, OF k4] .
  then have e2: "\<exists>s. active_sessions (step ?m1 (clock_at 1, ?beat)) '''' = Some s \<and>
              user_id s = '''' \<and> event_count s = 2"
    by simp
  show ?thesis
    using a1 a2 b1 c1 e2 by (intro conjI) simp_all
qed

text \<open>
  The claim as stated fails for empty identifiers: a \<^verbatim>\<open>session_start\<close> whose
  \<^verbatim>\<open>user_id\<close> and \<^verbatim>\<open>session_id\<close> are empty strings is not rejected; it creates a
  session under the empty key, and nothing is logged.
\<close>

theorem validation_counterexample:
  "process_event (clock_at 0) (fresh_monitor None)
      (event_dict '''' '''' ''session_start'' Map.empty) =
     Inr \<lparr>monitor_after = \<lparr>active_sessions = Map.empty('''' \<mapsto>
             \<lparr>user_id = '''', start_time = 0, last_heartbeat = 0, status = ''active'',
              risk_score = 0, event_count = 1, tab_switches = 0, last_tab_switch = None\<rparr>),
             ml_model = None\<rparr>,
          alerts_stored = [], logged = []\<rparr> \<and>
   receive_event (clock_at 0) (fresh_monitor None)
      (event_dict '''' '''' ''session_start'' Map.empty) =
     (Success, \<lparr>active_sessions = Map.empty('''' \<mapsto>
             \<lparr>user_id = '''', start_time = 0, last_heartbeat = 0, status = ''active'',
              risk_score = 0, event_count = 1, tab_switches = 0, last_tab_switch = None\<rparr>),
             ml_model = None\<rparr>)"
  by (simp add: model_defs fixture_defs receive_event_def body_accepted_def)

subsection \<open>C4: a missing or failing scorer\<close>

text \<open>
  Claim C4 asks that a failing scorer contribute nothing and never fail the pipeline.
  With the model that \<^verbatim>\<open>_initialize_ml_model\<close> builds when no trained model is on
  disk, the truth test of line 318 raises after the rules have run: for an inactivity
  event of 45 seconds, 20 seconds after the last heartbeat, the two rule alerts that are
  stored with no scorer are lost, and the exception is logged by \<^verbatim>\<open>process_event\<close>.
  With a model whose call raises, the fallback 0.0 is stored over the session's
  \<^verbatim>\<open>risk_score\<close>, and the failure is logged: a score that an alert raised to 0.8 is
  back at 0 after the next heartbeat.
\<close>

theorem failing_scorer_loses_alerts:
  "alerts_of (process_event (clock_at 20) (started (Some unfitted_forest))
      (event_dict ''u1'' ''s1'' ''inactivity'' [''duration'' \<mapsto> JNum 45])) = [] \<and>
   logged_of (process_event (clock_at 20) (started (Some unfitted_forest))
      (event_dict ''u1'' ''s1'' ''inactivity'' [''duration'' \<mapsto> JNum 45])) =
     [AttributeError ''estimators_''] \<and>
   map (\<lambda>a. (security_level a, al_description a))
     (alerts_of (process_event (clock_at 20) (started None)
        (event_dict ''u1'' ''s1'' ''inactivity'' [''duration'' \<mapsto> JNum 45]))) =
     [(MEDIUM, UserInactive (JNum 45)), (CRITICAL, HeartbeatTimeoutAfter 20000000)] \<and>
   map_option risk_score (active_sessions (run (started (Some failing_model))
      [(clock_at 1, event_dict ''u1'' ''s1'' ''inactivity'' [''duration'' \<mapsto> JNum 45])])
      ''s1'') = Some (8 / 10) \<and>
   map_option risk_score (active_sessions (run (started (Some failing_model))
      [(clock_at 1, event_dict ''u1'' ''s1'' ''inactivity'' [''duration'' \<mapsto> JNum 45]),
       (clock_at 2, event_dict ''u1'' ''s1'' ''heartbeat'' Map.empty)])
      ''s1'') = Some 0 \<and>
   logged_of (process_event (clock_at 2) (run (started (Some failing_model))
      [(clock_at 1, event_dict ''u1'' ''s1'' ''inactivity'' [''duration'' \<mapsto> JNum 45])])
      (event_dict ''u1'' ''s1'' ''heartbeat'' Map.empty)) = [ValueError ''features'']"
  by (simp add: started_None started_unfitted started_failing model_defs fixture_defs
        model_sel create_alert_def)

subsection \<open>C6: the heartbeat-timeout rule\<close>

text \<open>
  When the analysis of an event of a known session runs to its end, the critical alerts
  stored are exactly those of the heartbeat rule: one when the analyzer's clock is more
  than 10 seconds past the session's \<^verbatim>\<open>last_heartbeat\<close> as the state update left it,
  none otherwise.
\<close>

lemma heartbeat_rule_when_analysis_ends:
  assumes "build_event (utcnow_ingest clk) d = Inr e"
    and "active_sessions m (ev_session_id e) = Some s"
    and "process_event clk m d = Inr out" and "logged out = []"
  shows "critical_alerts (alerts_stored out) =
           (let hb = (if ev_event_type e = HEARTBEAT \<or> ev_event_type e = SESSION_START
                      then utcnow_ingest clk else last_heartbeat s);
                elapsed = utcnow_analyze clk - hb
            in if elapsed > seconds HEARTBEAT_TIMEOUT
               then [create_alert (time_time clk HeartbeatRule) e CRITICAL
                       (HeartbeatTimeoutAfter elapsed)]
               else [])"
proof -
  let ?m1 = "m\<lparr>active_sessions := update_session_state e (active_sessions m)\<rparr>"
  obtain s1 where s1: "active_sessions ?m1 (ev_session_id e) = Some s1"
    and hb: "last_heartbeat s1 =
               (if ev_event_type e = HEARTBEAT \<or> ev_event_type e = SESSION_START
                then ev_timestamp e else last_heartbeat s)"
    using update_known[of "active_sessions m" e s, OF assms(2)] by (simp add: new_session_def)
  have ts: "ev_timestamp e = utcnow_ingest clk"
    using build_event_fields[OF assms(1)] by simp
  show ?thesis
  proof (cases "analyze_security clk ?m1 e")
    case (Inl err)
    then show ?thesis
      using assms(1,3,4) by (auto simp: process_event_def)
  next
    case (Inr r)
    obtain m2 alerts lg where r: "r = (m2, alerts, lg)" by (cases r)
    have cr: "critical_alerts alerts = heartbeat_rule clk e s1"
      using analyze_critical[OF s1 Inr[unfolded r]] .
    have "alerts_stored out = alerts"
      using assms(1,3) Inr r by (auto simp: process_event_def)
    then show ?thesis
      using cr hb ts by (simp add: heartbeat_rule_def Let_def)
  qed
qed

text \<open>
  Claim C6 asks that the rule be evaluated on every event of a known session. Eleven
  seconds after the last heartbeat a \<^verbatim>\<open>screen_lock\<close> event stores one critical alert
  when no scorer is configured. With the model that \<^verbatim>\<open>_initialize_ml_model\<close> builds
  when no trained model is on disk, the truth test of line 318 raises after the rule has
  created its alert and before it is stored: no alert is stored. The same happens,
  with no scorer, for an inactivity event whose \<^verbatim>\<open>duration\<close> is not a number or whose
  \<^verbatim>\<open>metadata\<close> is not a dict: the inactivity rule raises before the heartbeat rule is
  reached.
\<close>

theorem heartbeat_alert_lost:
  "map (\<lambda>a. (security_level a, al_description a))
     (alerts_of (process_event (clock_at 11) (started None)
        (event_dict ''u1'' ''s1'' ''screen_lock'' Map.empty))) =
     [(CRITICAL, HeartbeatTimeoutAfter 11000000)] \<and>
   alerts_of (process_event (clock_at 11) (started (Some unfitted_forest))
      (event_dict ''u1'' ''s1'' ''screen_lock'' Map.empty)) = [] \<and>
   logged_of (process_event (clock_at 11) (started (Some unfitted_forest))
      (event_dict ''u1'' ''s1'' ''screen_lock'' Map.empty)) =
     [AttributeError ''estimators_''] \<and>
   alerts_of (process_event (clock_at 11) (started None)
      (event_dict ''u1'' ''s1'' ''inactivity'' [''duration'' \<mapsto> JOther])) = [] \<and>
   logged_of (process_event (clock_at 11) (started None)
      (event_dict ''u1'' ''s1'' ''inactivity'' [''duration'' \<mapsto> JOther])) = [TypeError] \<and>
   alerts_of (process_event (clock_at 11) (started None)
      ((event_dict ''u1'' ''s1'' ''inactivity'' Map.empty)\<lparr>d_metadata := Some MOther\<rparr>)) = [] \<and>
   logged_of (process_event (clock_at 11) (started None)
      ((event_dict ''u1'' ''s1'' ''inactivity'' Map.empty)\<lparr>d_metadata := Some MOther\<rparr>)) =
     [AttributeError ''get'']"
  by (simp add: started_None started_unfitted model_defs fixture_defs model_sel
        create_alert_def)

end
